theory Spec2Isabelle
  imports Complex_Main "HOL-Library.Char_ord" "HOL-Library.List_Lexorder" "HOL-Library.Multiset"
begin

section \<open>Dictionaries\<close>

text \<open>
  A Python \<open>dict\<close> with string keys is an association list in insertion order, with
  distinct keys; \<open>d.get(k, dflt)\<close> is \<open>dict_get\<close>.
\<close>

type_synonym 'v dict = "(string \<times> 'v) list"

definition dict_get :: "'v dict \<Rightarrow> string \<Rightarrow> 'v \<Rightarrow> 'v" where
  "dict_get d k dflt = (case map_of d k of None \<Rightarrow> dflt | Some v \<Rightarrow> v)"

section \<open>\<open>score_ratios\<close> (financial_utils.py)\<close>

text \<open>
  \<^verbatim>\<open>if not ratios: return {}, 0\<close>, then the four sub-scores as a dict literal in the
  order of the source, then \<^verbatim>\<open>overall = sum(sub_scores.values()) / len(sub_scores)\<close>.
  The scorer divides by the constants 2, 3, 1 and 0.1 only; its formulas are stated over
  the real numbers, of which the floating-point results are the roundings.
\<close>

definition score_ratios :: "real dict \<Rightarrow> real dict \<times> real" where
  "score_ratios ratios =
     (if ratios = [] then ([], 0)
      else
        let sub_scores =
          [(''Profitability'',
              (dict_get ratios ''Net Profit Margin'' 0 * 100
               + dict_get ratios ''Gross Margin'' 0 * 100) / 2),
           (''Liquidity'',
              (min (dict_get ratios ''Current Ratio'' 0 / 2) 1 * 100
               + min (dict_get ratios ''Quick Ratio'' 0 / 1) 1 * 100) / 2),
           (''Leverage'',
              (1 - min (dict_get ratios ''Debt to Equity Ratio'' 0 / 3) 1) * 100),
           (''Efficiency'',
              min (dict_get ratios ''Return on Assets (ROA)'' 0 / (1 / 10)) 1 * 100)]
        in (sub_scores, sum_list (map snd sub_scores) / real (length sub_scores)))"

section \<open>Python strings and integers\<close>

text \<open>
  The exceptions that the modelled code can raise.  A function that can raise returns
  \<open>py_error + 'a\<close>, with \<open>Inl\<close> for the exception.
\<close>

datatype py_error =
  KeyError | AttributeError | TypeError | ValueError | ZeroDivisionError | OverflowError

definition bind_err :: "py_error + 'a \<Rightarrow> ('a \<Rightarrow> py_error + 'b) \<Rightarrow> py_error + 'b" where
  "bind_err m f = (case m of Inl e \<Rightarrow> Inl e | Inr x \<Rightarrow> f x)"

text \<open>
  A string is a list of characters with the code points 0 to 255.  \<open>isspace\<close> is Python's
  \<^verbatim>\<open>str.isspace\<close> on that range: the characters that \<^verbatim>\<open>str.strip()\<close> removes at
  both ends.
\<close>

definition isspace :: "char \<Rightarrow> bool" where
  "isspace c \<longleftrightarrow>
     c \<in> set [CHR 0x09, CHR 0x0A, CHR 0x0B, CHR 0x0C, CHR 0x0D,
               CHR 0x1C, CHR 0x1D, CHR 0x1E, CHR 0x1F, CHR 0x20, CHR 0x85, CHR 0xA0]"

definition strip :: "string \<Rightarrow> string" where
  "strip s = rev (dropWhile isspace (rev (dropWhile isspace s)))"

text \<open>
  \<^verbatim>\<open>int(s)\<close> skips less: a whitespace character above 127 is first turned into a
  space, and then only tab, line feed, vertical tab, form feed, carriage return and space
  are skipped at both ends.  The separators U+001C to U+001F are not.
\<close>

definition int_space :: "char \<Rightarrow> bool" where
  "int_space c \<longleftrightarrow>
     c \<in> set [CHR 0x09, CHR 0x0A, CHR 0x0B, CHR 0x0C, CHR 0x0D, CHR 0x20, CHR 0x85, CHR 0xA0]"

definition int_strip :: "string \<Rightarrow> string" where
  "int_strip s = rev (dropWhile int_space (rev (dropWhile int_space s)))"

definition isdigit :: "char \<Rightarrow> bool" where
  "isdigit c \<longleftrightarrow> c \<in> set ''0123456789''"

definition digit_val :: "char \<Rightarrow> nat" where
  "digit_val c = of_char c - 48"

text \<open>
  The digit part of an integer literal accepted by \<^verbatim>\<open>int(s)\<close>: one or more digits,
  with single underscores allowed between two digits.
\<close>

fun digits_ok :: "string \<Rightarrow> bool" where
  "digits_ok [] = False"
| "digits_ok [c] = isdigit c"
| "digits_ok (c # d # cs) =
     (isdigit c \<and> (if d = CHR ''_'' then digits_ok cs else digits_ok (d # cs)))"

definition digits_val :: "string \<Rightarrow> nat" where
  "digits_val s = foldl (\<lambda>a c. 10 * a + digit_val c) 0 (filter (\<lambda>c. c \<noteq> CHR ''_'') s)"

text \<open>
  The interpreter refuses to convert between \<^verbatim>\<open>int\<close> and \<^verbatim>\<open>str\<close> when more
  than \<open>max_str_digits\<close> digits are involved, and raises \<^verbatim>\<open>ValueError\<close>.  4300 is the
  default of the setting.
\<close>

definition max_str_digits :: nat where
  "max_str_digits = 4300"

text \<open>
  \<^verbatim>\<open>int(s)\<close> for a string: surrounding whitespace is dropped, one sign is allowed, the
  rest is a decimal literal.  \<open>None\<close> is the \<^verbatim>\<open>ValueError\<close>.
\<close>

definition py_int :: "string \<Rightarrow> int option" where
  "py_int s =
     (let t = int_strip s;
          neg = (t \<noteq> [] \<and> hd t = CHR ''-'');
          u = (if t \<noteq> [] \<and> (hd t = CHR ''-'' \<or> hd t = CHR ''+'') then tl t else t)
      in if digits_ok u \<and> length (filter isdigit u) \<le> max_str_digits
         then Some (if neg then - int (digits_val u) else int (digits_val u))
         else None)"

text \<open>
  \<^verbatim>\<open>str(n)\<close> for an integer: \<open>py_str_int\<close> is the decimal numeral, and \<open>py_str\<close> is
  the conversion with its \<^verbatim>\<open>ValueError\<close>.
\<close>

fun str_nat :: "nat \<Rightarrow> string" where
  "str_nat n =
     (if n < 10 then [char_of (48 + n)] else str_nat (n div 10) @ [char_of (48 + n mod 10)])"

declare str_nat.simps [simp del]

definition py_str_int :: "int \<Rightarrow> string" where
  "py_str_int i = (if i < 0 then CHR ''-'' # str_nat (nat (- i)) else str_nat (nat i))"

definition py_str :: "int \<Rightarrow> py_error + string" where
  "py_str i =
     (if max_str_digits < length (str_nat (nat \<bar>i\<bar>)) then Inl ValueError
      else Inr (py_str_int i))"

section \<open>Numbers\<close>

text \<open>
  A double-precision number is a real number, or one of the three values inf, -inf and
  nan.  \<open>Fin x\<close> stands for the double nearest to \<open>x\<close>: the rounding error of an
  operation is not modelled, its overflow is.  A result at or beyond
  \<open>overflow_threshold\<close>, halfway between the largest double and \<open>2 ^ 1024\<close>, rounds to
  an infinity.  The sign of a zero is not modelled; a zero divisor counts as \<open>+0.0\<close>.
\<close>

datatype fl = Fin real | PInf | NInf | FNaN

definition overflow_threshold :: real where
  "overflow_threshold = 2 ^ 1024 - 2 ^ 970"

definition to_fl :: "real \<Rightarrow> fl" where
  "to_fl x =
     (if overflow_threshold \<le> x then PInf
      else if x \<le> - overflow_threshold then NInf
      else Fin x)"

fun fl_neg :: "fl \<Rightarrow> fl" where
  "fl_neg (Fin a) = Fin (- a)"
| "fl_neg PInf = NInf"
| "fl_neg NInf = PInf"
| "fl_neg FNaN = FNaN"

fun fl_add :: "fl \<Rightarrow> fl \<Rightarrow> fl" where
  "fl_add (Fin a) (Fin b) = to_fl (a + b)"
| "fl_add FNaN y = FNaN"
| "fl_add x FNaN = FNaN"
| "fl_add PInf NInf = FNaN"
| "fl_add NInf PInf = FNaN"
| "fl_add PInf y = PInf"
| "fl_add x PInf = PInf"
| "fl_add NInf y = NInf"
| "fl_add x NInf = NInf"

definition fl_sub :: "fl \<Rightarrow> fl \<Rightarrow> fl" where
  "fl_sub x y = fl_add x (fl_neg y)"

fun fl_mul :: "fl \<Rightarrow> fl \<Rightarrow> fl" where
  "fl_mul (Fin a) (Fin b) = to_fl (a * b)"
| "fl_mul FNaN y = FNaN"
| "fl_mul x FNaN = FNaN"
| "fl_mul (Fin a) PInf = (if a = 0 then FNaN else if 0 < a then PInf else NInf)"
| "fl_mul (Fin a) NInf = (if a = 0 then FNaN else if 0 < a then NInf else PInf)"
| "fl_mul PInf (Fin b) = (if b = 0 then FNaN else if 0 < b then PInf else NInf)"
| "fl_mul NInf (Fin b) = (if b = 0 then FNaN else if 0 < b then NInf else PInf)"
| "fl_mul PInf PInf = PInf"
| "fl_mul NInf NInf = PInf"
| "fl_mul PInf NInf = NInf"
| "fl_mul NInf PInf = NInf"

fun fl_div :: "fl \<Rightarrow> fl \<Rightarrow> fl" where
  "fl_div (Fin a) (Fin b) =
     (if b = 0 then (if a = 0 then FNaN else if 0 < a then PInf else NInf)
      else to_fl (a / b))"
| "fl_div FNaN y = FNaN"
| "fl_div x FNaN = FNaN"
| "fl_div (Fin a) PInf = Fin 0"
| "fl_div (Fin a) NInf = Fin 0"
| "fl_div PInf (Fin b) = (if 0 \<le> b then PInf else NInf)"
| "fl_div NInf (Fin b) = (if 0 \<le> b then NInf else PInf)"
| "fl_div x y = FNaN"

text \<open>
  A numpy scalar is a 64-bit integer, which wraps around, or a double.  The numbers in the
  cells of a frame are numpy scalars.  The numbers of the program are these and Python
  integers, such as the literal 0 of the source.  An operation on two Python integers is
  Python's; as soon as one operand is a numpy scalar it is numpy's, which takes a Python
  integer as a 64-bit integer and computes in doubles when one operand is a double.
\<close>

datatype npnum = NpInt int | NpFloat fl

datatype number = PyInt int | Np npnum

definition wrap64 :: "int \<Rightarrow> int" where
  "wrap64 x = (x + 2 ^ 63) mod 2 ^ 64 - 2 ^ 63"

fun as_fl :: "number \<Rightarrow> fl" where
  "as_fl (PyInt n) = to_fl (of_int n)"
| "as_fl (Np (NpInt n)) = Fin (of_int n)"
| "as_fl (Np (NpFloat x)) = x"



fun np_mul :: "number \<Rightarrow> number \<Rightarrow> number" where
  "np_mul (PyInt a) (PyInt b) = PyInt (a * b)"
| "np_mul (PyInt a) (Np (NpInt b)) = Np (NpInt (wrap64 (a * b)))"
| "np_mul (Np (NpInt a)) (PyInt b) = Np (NpInt (wrap64 (a * b)))"
| "np_mul (Np (NpInt a)) (Np (NpInt b)) = Np (NpInt (wrap64 (a * b)))"
| "np_mul x y = Np (NpFloat (fl_mul (as_fl x) (as_fl y)))"

text \<open>
  True division \<^verbatim>\<open>x / y\<close> gives a double.  Python raises \<^verbatim>\<open>ZeroDivisionError\<close> for
  a zero divisor and \<^verbatim>\<open>OverflowError\<close> for a quotient of integers beyond the doubles;
  numpy raises nothing and returns an infinity or nan.
\<close>

fun np_truediv :: "number \<Rightarrow> number \<Rightarrow> py_error + number" where
  "np_truediv (PyInt a) (PyInt b) =
     (if b = 0 then Inl ZeroDivisionError
      else if overflow_threshold \<le> \<bar>of_int a / of_int b\<bar> then Inl OverflowError
      else Inr (Np (NpFloat (Fin (of_int a / of_int b)))))"
| "np_truediv x y = Inr (Np (NpFloat (fl_div (as_fl x) (as_fl y))))"

text \<open>\<^verbatim>\<open>x != 0\<close> for a number, and whether a number is finite.\<close>

fun nonzero :: "number \<Rightarrow> bool" where
  "nonzero (PyInt a) = (a \<noteq> 0)"
| "nonzero (Np (NpInt a)) = (a \<noteq> 0)"
| "nonzero (Np (NpFloat (Fin a))) = (a \<noteq> 0)"
| "nonzero (Np (NpFloat x)) = True"


section \<open>Data frames\<close>

text \<open>
  A column label of a sheet read from a spreadsheet is a string or an integer; the two
  never compare equal, so \<^verbatim>\<open>"2024" in df.columns\<close> is false for a frame whose label
  is the integer 2024.  A cell is a number, a text, or missing (NaN).

  A \<open>frame\<close> is a pandas DataFrame: its column labels in order, and its rows in order.
  A row gives the cell of every label; only the labels in \<open>columns\<close> are ever read.
  The row label column is the column named \<open>Field\<close>.
\<close>

datatype colname = CStr string | CInt int

datatype cell = Num npnum | Txt string | NaN

record frame =
  columns :: "colname list"
  rows :: "(colname \<Rightarrow> cell) list"

abbreviation Field_col :: colname where
  "Field_col \<equiv> CStr ''Field''"

fun is_Txt :: "cell \<Rightarrow> bool" where
  "is_Txt (Txt s) = True"
| "is_Txt c = False"

text \<open>
  pandas stores a missing cell of a column of doubles as nan, so the cell
  \<open>Num (NpFloat FNaN)\<close> is a missing cell as well as \<open>NaN\<close>.
\<close>

fun is_Num :: "cell \<Rightarrow> bool" where
  "is_Num (Num x) = (x \<noteq> NpFloat FNaN)"
| "is_Num c = False"

text \<open>
  \<^verbatim>\<open>df["Field"].fillna("")\<close> assigned back to the column: a missing label becomes the
  empty string.  The source raises \<^verbatim>\<open>KeyError\<close> when the frame has no such column.
\<close>

fun fillna_cell :: "cell \<Rightarrow> cell" where
  "fillna_cell NaN = Txt []"
| "fillna_cell (Num x) = (if x = NpFloat FNaN then Txt [] else Num x)"
| "fillna_cell (Txt s) = Txt s"


section \<open>\<open>get_value\<close> (financial_utils.py, in \<open>compute_ratios\<close> and in \<open>analyze_trends\<close>)\<close>

text \<open>
  \<^verbatim>\<open>pd.to_numeric(val, errors="coerce")\<close> followed by \<^verbatim>\<open>pd.notna\<close>: a number is kept,
  a missing cell or a nan gives the integer 0, and a text is parsed by pandas.  The parser
  of pandas is not part of this program: it is the parameter \<open>parse\<close>, which returns
  \<open>None\<close> for a text that is not a number.
\<close>

fun notna_or_zero :: "npnum \<Rightarrow> number" where
  "notna_or_zero x = (if x = NpFloat FNaN then PyInt 0 else Np x)"

fun to_numeric_or_zero :: "(string \<Rightarrow> npnum option) \<Rightarrow> cell \<Rightarrow> number" where
  "to_numeric_or_zero parse (Num x) = notna_or_zero x"
| "to_numeric_or_zero parse NaN = PyInt 0"
| "to_numeric_or_zero parse (Txt s) =
     (case parse s of Some x \<Rightarrow> notna_or_zero x | None \<Rightarrow> PyInt 0)"

text \<open>
  \<^verbatim>\<open>match = df.loc[df["Field"] == field_name, year]\<close> selects, in row order, the cells
  of column \<open>year\<close> in the rows whose label equals \<open>field_name\<close>; it raises \<^verbatim>\<open>KeyError\<close>
  if either column is absent.  \<^verbatim>\<open>match.values[0]\<close> is the first of them; when there
  is none the value is the Python integer 0, which \<^verbatim>\<open>to_numeric\<close> and \<^verbatim>\<open>notna\<close>
  leave as it is.
\<close>

definition get_value ::
    "(string \<Rightarrow> npnum option) \<Rightarrow> frame \<Rightarrow> string \<Rightarrow> colname \<Rightarrow> py_error + number" where
  "get_value parse df field_name year =
     (if Field_col \<notin> set (columns df) \<or> year \<notin> set (columns df) then Inl KeyError
      else
        let match = map (\<lambda>r. r year) (filter (\<lambda>r. r Field_col = Txt field_name) (rows df))
        in Inr (case match of [] \<Rightarrow> PyInt 0 | v # vs \<Rightarrow> to_numeric_or_zero parse v))"

section \<open>\<open>compute_ratios\<close> (financial_utils.py)\<close>







section \<open>\<open>analyze_trends\<close> (financial_utils.py)\<close>

text \<open>
  The sort key \<^verbatim>\<open>int(str(x))\<close> of a column label: an integer label whose decimal
  form \<^verbatim>\<open>str\<close> can produce is its own key, a string label is parsed by \<^verbatim>\<open>int\<close>,
  and \<open>None\<close> is the \<^verbatim>\<open>ValueError\<close>.
\<close>

fun year_key :: "colname \<Rightarrow> int option" where
  "year_key (CInt n) = (case py_str n of Inl e \<Rightarrow> None | Inr s \<Rightarrow> Some n)"
| "year_key (CStr s) = py_int s"

fun is_CStr :: "colname \<Rightarrow> bool" where
  "is_CStr (CStr s) = True"
| "is_CStr (CInt n) = False"

fun str_of_col :: "colname \<Rightarrow> string" where
  "str_of_col (CStr s) = s"
| "str_of_col (CInt n) = py_str_int n"

fun int_of_col :: "colname \<Rightarrow> int" where
  "int_of_col (CInt n) = n"
| "int_of_col (CStr s) = 0"

text \<open>
  \<^verbatim>\<open>sorted(years)\<close> without a key compares the labels themselves.  Strings are
  compared character by character, integers by value; comparing a string with an integer
  raises \<^verbatim>\<open>TypeError\<close>, and a list of two or more labels of both kinds cannot be
  sorted without such a comparison.
\<close>

definition py_sorted :: "colname list \<Rightarrow> py_error + colname list" where
  "py_sorted ys =
     (if \<forall>y \<in> set ys. is_CStr y then Inr (sort_key str_of_col ys)
      else if \<forall>y \<in> set ys. \<not> is_CStr y then Inr (sort_key int_of_col ys)
      else Inl TypeError)"

text \<open>
  Lines 241 to 246: the numeric sort is tried first; when a key raises
  \<^verbatim>\<open>ValueError\<close> the fallback is \<^verbatim>\<open>sorted(years)\<close>.  Both sorts are stable.
\<close>

definition sort_years :: "colname list \<Rightarrow> py_error + colname list" where
  "sort_years years =
     (if \<forall>y \<in> set years. year_key y \<noteq> None
      then Inr (sort_key (\<lambda>y. the (year_key y)) years)
      else py_sorted years)"

text \<open>
  The trend table: one column per year and the three rows of the source, or the empty
  DataFrame.
\<close>

record trend =
  tcolumns :: "colname list"
  trows :: "(string \<times> number list) list"

definition empty_trend :: trend where
  "empty_trend = \<lparr>tcolumns = [], trows = []\<rparr>"

text \<open>
  The loop of lines 248 to 259; an entry is (Year, Revenue, Net Profit, Net Margin), and
  the margin is \<^verbatim>\<open>(pat / revenue * 100) if revenue != 0 else 0\<close>.
\<close>

fun trend_loop ::
    "(string \<Rightarrow> npnum option) \<Rightarrow> frame \<Rightarrow> colname list
       \<Rightarrow> py_error + (colname \<times> number \<times> number \<times> number) list" where
  "trend_loop parse income [] = Inr []"
| "trend_loop parse income (year # ys) =
     bind_err (get_value parse income ''Revenue from operations'' year) (\<lambda>revenue.
     bind_err (get_value parse income ''Profit/(Loss) for the year'' year) (\<lambda>pat.
     bind_err (if nonzero revenue
               then bind_err (np_truediv pat revenue) (\<lambda>q. Inr (np_mul q (PyInt 100)))
               else Inr (PyInt 0)) (\<lambda>margin.
     bind_err (trend_loop parse income ys) (\<lambda>rest.
       Inr ((year, revenue, pat, margin) # rest)))))"

definition analyze_trends ::
    "(string \<Rightarrow> npnum option) \<Rightarrow> frame dict option \<Rightarrow> py_error + trend" where
  "analyze_trends parse financials =
     (case financials of
        None \<Rightarrow> Inr empty_trend
      | Some fin \<Rightarrow>
          (case map_of fin ''Income Statement'' of
             None \<Rightarrow> Inr empty_trend
           | Some income \<Rightarrow>
               let years = filter (\<lambda>col. col \<noteq> Field_col) (columns income) in
               if years = [] then Inr empty_trend
               else
                 bind_err (sort_years years) (\<lambda>sorted_years.
                 bind_err (trend_loop parse income sorted_years) (\<lambda>trend_data.
                   if trend_data = [] then Inr empty_trend
                   else Inr \<lparr>tcolumns = map fst trend_data,
                             trows =
                               [(''Revenue (in currency)'', map (\<lambda>(y, r, p, m). r) trend_data),
                                (''Net Profit (in currency)'', map (\<lambda>(y, r, p, m). p) trend_data),
                                (''Net Margin (%)'', map (\<lambda>(y, r, p, m). m) trend_data)]\<rparr>))))"

section \<open>\<open>consolidate_financials\<close> (financial_utils.py)\<close>

text \<open>
  \<open>read_financials\<close> reads a spreadsheet from disk; it is the parameter \<open>read\<close>, which
  gives for a path the dict of its sheets, or \<open>None\<close> when the file cannot be read.
  The loop of lines 36 to 52 collects the sheets of each kind in file order.
\<close>

fun collect_sheets ::
    "(string \<Rightarrow> frame dict option) \<Rightarrow> string list \<Rightarrow> frame list \<times> frame list
       \<Rightarrow> frame list \<times> frame list" where
  "collect_sheets read [] acc = acc"
| "collect_sheets read (file_path # rest) (inc, bal) =
     (case read file_path of
        None \<Rightarrow> collect_sheets read rest (inc, bal)
      | Some sheets \<Rightarrow>
          collect_sheets read rest
            ((case map_of sheets ''Income Statement'' of Some f \<Rightarrow> inc @ [f] | None \<Rightarrow> inc),
             (case map_of sheets ''Balance Sheet'' of Some f \<Rightarrow> bal @ [f] | None \<Rightarrow> bal)))"

text \<open>
  \<^verbatim>\<open>pd.concat(frames)\<close>: the columns are the union of the frames' columns in order of
  first appearance, the rows are the rows of the frames in order, and a row has a missing
  cell in every column that its own frame does not have.  The labels of one sheet are
  distinct, as \<^verbatim>\<open>read_excel\<close> makes them.
\<close>

definition first_occurrences :: "'a list \<Rightarrow> 'a list" where
  "first_occurrences xs = rev (remdups (rev xs))"

definition pad_rows :: "frame \<Rightarrow> (colname \<Rightarrow> cell) list" where
  "pad_rows f = map (\<lambda>r c. if c \<in> set (columns f) then r c else NaN) (rows f)"

definition pd_concat :: "frame list \<Rightarrow> frame" where
  "pd_concat frames =
     \<lparr>columns = first_occurrences (concat (map columns frames)),
      rows = concat (map pad_rows frames)\<rparr>"

text \<open>
  \<^verbatim>\<open>all["Field"] = all["Field"].fillna("").str.strip()\<close>.  Indexing raises
  \<^verbatim>\<open>KeyError\<close> without a Field column.  After \<^verbatim>\<open>fillna\<close> the \<^verbatim>\<open>.str\<close> accessor
  raises \<^verbatim>\<open>AttributeError\<close> on a column of numeric type, that is, a non-empty column
  of numbers only; elsewhere \<^verbatim>\<open>strip\<close> trims a text and turns a number into a missing
  label.
\<close>

fun strip_cell :: "cell \<Rightarrow> cell" where
  "strip_cell (Txt s) = Txt (strip s)"
| "strip_cell c = NaN"

definition normalize_field :: "frame \<Rightarrow> py_error + frame" where
  "normalize_field df =
     (if Field_col \<notin> set (columns df) then Inl KeyError
      else if rows df \<noteq> [] \<and> (\<forall>r \<in> set (rows df). is_Num (r Field_col)) then Inl AttributeError
      else Inr (df\<lparr>rows :=
                  map (\<lambda>r. r(Field_col := strip_cell (fillna_cell (r Field_col)))) (rows df)\<rparr>))"

text \<open>
  \<^verbatim>\<open>df.groupby("Field").sum(numeric_only=True).reset_index()\<close>.  The groups are the
  distinct text labels in ascending order; rows with a missing label belong to no group.
  \<^verbatim>\<open>numeric_only=True\<close> keeps the columns of numeric type: those of a frame with at
  least one row in which no cell is a text.  \<^verbatim>\<open>reset_index\<close> puts the label back as
  first column.

  A numeric column whose cells are all 64-bit integers has integer type, and the sum of a
  group is the 64-bit sum, which wraps around.  Any other numeric column has the type of
  doubles: the sum of a group adds the cells in row order, skips missing cells, and is 0.0
  when all are missing.  The sum of doubles is the compensated sum of pandas
  (\<^verbatim>\<open>group_sum\<close>, with a compensation that is reset when it is nan); as rounding is
  not modelled, the compensation differs from zero only after an overflow.
\<close>

definition numeric_column :: "frame \<Rightarrow> colname \<Rightarrow> bool" where
  "numeric_column df c \<longleftrightarrow> rows df \<noteq> [] \<and> (\<forall>r \<in> set (rows df). \<not> is_Txt (r c))"

fun label_of_cell :: "cell \<Rightarrow> string list" where
  "label_of_cell (Txt s) = [s]"
| "label_of_cell c = []"

definition group_keys :: "frame \<Rightarrow> string list" where
  "group_keys df = sort (remdups (concat (map (\<lambda>r. label_of_cell (r Field_col)) (rows df))))"

fun is_int_cell :: "cell \<Rightarrow> bool" where
  "is_int_cell (Num (NpInt n)) = True"
| "is_int_cell c = False"

definition int_column :: "frame \<Rightarrow> colname \<Rightarrow> bool" where
  "int_column df c \<longleftrightarrow> (\<forall>r \<in> set (rows df). is_int_cell (r c))"

fun cell_int :: "cell \<Rightarrow> int" where
  "cell_int (Num (NpInt n)) = n"
| "cell_int c = 0"

fun cell_floats :: "cell \<Rightarrow> fl list" where
  "cell_floats (Num x) = (if x = NpFloat FNaN then [] else [as_fl (Np x)])"
| "cell_floats c = []"

fun kahan_step :: "fl \<times> fl \<Rightarrow> fl \<Rightarrow> fl \<times> fl" where
  "kahan_step (sumx, compensation) val =
     (let y = fl_sub val compensation;
          t = fl_add sumx y;
          c = fl_sub (fl_sub t sumx) y
      in (t, if c = FNaN then Fin 0 else c))"

definition float_sum :: "fl list \<Rightarrow> fl" where
  "float_sum xs = fst (foldl kahan_step (Fin 0, Fin 0) xs)"

definition group_sum :: "frame \<Rightarrow> string \<Rightarrow> colname \<Rightarrow> npnum" where
  "group_sum df k c =
     (let cells = map (\<lambda>r. r c) (filter (\<lambda>r. r Field_col = Txt k) (rows df))
      in if int_column df c then NpInt (wrap64 (sum_list (map cell_int cells)))
         else NpFloat (float_sum (concat (map cell_floats cells))))"

definition groupby_field_sum :: "frame \<Rightarrow> frame" where
  "groupby_field_sum df =
     (let numeric = filter (\<lambda>c. c \<noteq> Field_col \<and> numeric_column df c) (columns df)
      in \<lparr>columns = Field_col # numeric,
          rows = map (\<lambda>k c. if c = Field_col then Txt k
                            else if c \<in> set numeric then Num (group_sum df k c) else NaN)
                   (group_keys df)\<rparr>)"

text \<open>Lines 68 to 71 for one statement, and the whole function.\<close>

definition consolidate_statement :: "frame list \<Rightarrow> py_error + frame" where
  "consolidate_statement frames =
     bind_err (normalize_field (pd_concat frames)) (\<lambda>df. Inr (groupby_field_sum df))"

definition consolidate_financials ::
    "(string \<Rightarrow> frame dict option) \<Rightarrow> string list \<Rightarrow> frame dict option" where
  "consolidate_financials read file_paths =
     (case collect_sheets read file_paths ([], []) of (inc, bal) \<Rightarrow>
        if inc = [] \<or> bal = [] then None
        else
          (case consolidate_statement inc of
             Inl e \<Rightarrow> None
           | Inr final_income \<Rightarrow>
               (case consolidate_statement bal of
                  Inl e \<Rightarrow> None
                | Inr final_balance \<Rightarrow>
                    Some [(''Income Statement'', final_income),
                          (''Balance Sheet'', final_balance)])))"

section \<open>Reference functions and example data\<close>

text \<open>
  The number read from the first row whose label is \<open>name\<close>: the reference against
  which \<open>get_value\<close> is compared.
\<close>

definition first_cell ::
    "(string \<Rightarrow> npnum option) \<Rightarrow> frame \<Rightarrow> string \<Rightarrow> colname \<Rightarrow> number" where
  "first_cell parse df name year =
     (case find (\<lambda>r. r Field_col = Txt name) (rows df) of
        None \<Rightarrow> PyInt 0
      | Some r \<Rightarrow> to_numeric_or_zero parse (r year))"

text \<open>The frame after \<^verbatim>\<open>df["Field"] = df["Field"].fillna("")\<close>.\<close>

definition filled :: "frame \<Rightarrow> frame" where
  "filled df = df\<lparr>rows := map (\<lambda>r. r(Field_col := fillna_cell (r Field_col))) (rows df)\<rparr>"

text \<open>
  A looked-up value is the Python integer 0 or a numpy scalar.  \<open>ratio_value a b\<close> is
  the value of \<^verbatim>\<open>(a / b) if b != 0 else 0\<close> when \<open>b\<close> is such a value.
\<close>

definition zero_or_numpy :: "number \<Rightarrow> bool" where
  "zero_or_numpy d \<longleftrightarrow> d = PyInt 0 \<or> (\<exists>x. d = Np x)"







text \<open>A table in which two rows carry the same label.\<close>

definition dup_frame :: frame where
  "dup_frame =
     \<lparr>columns = [Field_col, CInt 2024],
      rows = [(\<lambda>c. NaN)(Field_col := Txt ''Equity'', CInt 2024 := Num (NpInt 5)),
              (\<lambda>c. NaN)(Field_col := Txt ''Equity'', CInt 2024 := Num (NpInt 7))]\<rparr>"

text \<open>
  An income statement whose header row holds the number 2023 and the text FY21.
\<close>

definition mixed_income :: frame where
  "mixed_income =
     \<lparr>columns = [Field_col, CInt 2023, CStr ''FY21''],
      rows = [(\<lambda>c. NaN)(Field_col := Txt ''Revenue from operations'',
                          CInt 2023 := Num (NpInt 10), CStr ''FY21'' := Num (NpInt 8))]\<rparr>"


section \<open>Reference functions and example data for the consolidator\<close>

text \<open>
  The sheets called \<open>name\<close> of the readable files, in file order: what the loop of
  \<open>consolidate_financials\<close> is compared with.
\<close>

definition sheets_named ::
    "(string \<Rightarrow> frame dict option) \<Rightarrow> string list \<Rightarrow> string \<Rightarrow> frame list" where
  "sheets_named read paths name =
     concat (map (\<lambda>p. case read p of
                          None \<Rightarrow> []
                        | Some sheets \<Rightarrow> (case map_of sheets name of None \<Rightarrow> [] | Some f \<Rightarrow> [f]))
                 paths)"

text \<open>
  When the consolidation of the collected sheets of one statement raises: no sheet has a
  Field column, or the sheets have rows and every label is a number.
\<close>

definition statement_raises :: "frame list \<Rightarrow> bool" where
  "statement_raises frames \<longleftrightarrow>
     (\<forall>f \<in> set frames. Field_col \<notin> set (columns f))
   \<or> ((\<exists>f \<in> set frames. rows f \<noteq> [])
      \<and> (\<forall>f \<in> set frames. \<forall>r \<in> set (rows f).
            Field_col \<in> set (columns f) \<and> is_Num (r Field_col)))"

text \<open>
  The trimmed, null-coalesced label of a row: a text is trimmed, a missing label is the
  empty string, and a number is no label.
\<close>

fun row_label :: "cell \<Rightarrow> string option" where
  "row_label (Txt s) = Some (strip s)"
| "row_label NaN = Some []"
| "row_label (Num x) = (if x = NpFloat FNaN then Some [] else None)"

definition labels_of :: "frame \<Rightarrow> string list" where
  "labels_of df =
     concat (map (\<lambda>r. case row_label (r Field_col) of None \<Rightarrow> [] | Some k \<Rightarrow> [k]) (rows df))"

definition group_rows :: "frame \<Rightarrow> string \<Rightarrow> (colname \<Rightarrow> cell) list" where
  "group_rows df k = filter (\<lambda>r. row_label (r Field_col) = Some k) (rows df)"

text \<open>
  The columns that are summed, and the sum of column \<open>c\<close> over the rows labelled \<open>k\<close>,
  both in terms of the collected rows \<open>df\<close>.
\<close>

definition summed_columns :: "frame \<Rightarrow> colname list" where
  "summed_columns df =
     filter (\<lambda>c. c \<noteq> Field_col \<and> rows df \<noteq> [] \<and> (\<forall>r \<in> set (rows df). \<not> is_Txt (r c)))
            (columns df)"

definition group_total :: "frame \<Rightarrow> string \<Rightarrow> colname \<Rightarrow> npnum" where
  "group_total df k c =
     (if \<forall>r \<in> set (rows df). is_int_cell (r c)
      then NpInt (wrap64 (sum_list (map (\<lambda>r. cell_int (r c)) (group_rows df k))))
      else NpFloat (float_sum (concat (map (\<lambda>r. cell_floats (r c)) (group_rows df k)))))"

text \<open>The collected rows after line 69, when it does not raise.\<close>

definition normalized :: "frame \<Rightarrow> frame" where
  "normalized df =
     df\<lparr>rows := map (\<lambda>r. r(Field_col := strip_cell (fillna_cell (r Field_col)))) (rows df)\<rparr>"

text \<open>
  The consolidated statement in terms of the collected rows: one row for each label, in
  ascending order, with the label and the sums of the summed columns.
\<close>

definition grouped :: "frame \<Rightarrow> frame" where
  "grouped df =
     \<lparr>columns = Field_col # summed_columns df,
      rows = map (\<lambda>k c. if c = Field_col then Txt k
                        else if c \<in> set (summed_columns df) then Num (group_total df k c)
                        else NaN)
                 (sort (remdups (labels_of df)))\<rparr>"

text \<open>A sheet in which every label occurs once.\<close>

definition unique_labels :: "frame \<Rightarrow> bool" where
  "unique_labels f \<longleftrightarrow> distinct (labels_of (pd_concat [f]))"

text \<open>
  Example sheets.  \<open>header_only\<close> has a header row and no data row.  \<open>text_sheet\<close> has
  the text TBD in a cell of its year column.  \<open>padded_sheet\<close> and \<open>plain_sheet\<close> carry
  the same label up to surrounding blanks.  \<open>sheet_2023\<close> and \<open>sheet_2024\<close> have
  different year columns.
\<close>

definition header_only :: frame where
  "header_only = \<lparr>columns = [Field_col, CInt 2024], rows = []\<rparr>"

definition text_sheet :: frame where
  "text_sheet =
     \<lparr>columns = [Field_col, CInt 2024],
      rows = [(\<lambda>c. NaN)(Field_col := Txt ''Revenue'', CInt 2024 := Num (NpInt 100)),
              (\<lambda>c. NaN)(Field_col := Txt ''Other'', CInt 2024 := Txt ''TBD'')]\<rparr>"

definition padded_sheet :: frame where
  "padded_sheet =
     \<lparr>columns = [Field_col, CInt 2024],
      rows = [(\<lambda>c. NaN)(Field_col := Txt '' Revenue '', CInt 2024 := Num (NpInt 100))]\<rparr>"

definition plain_sheet :: frame where
  "plain_sheet =
     \<lparr>columns = [Field_col, CInt 2024],
      rows = [(\<lambda>c. NaN)(Field_col := Txt ''Revenue'', CInt 2024 := Num (NpInt 200))]\<rparr>"

definition sheet_2023 :: frame where
  "sheet_2023 =
     \<lparr>columns = [Field_col, CInt 2023],
      rows = [(\<lambda>c. NaN)(Field_col := Txt ''Revenue'', CInt 2023 := Num (NpInt 100))]\<rparr>"

definition sheet_2024 :: frame where
  "sheet_2024 =
     \<lparr>columns = [Field_col, CInt 2024],
      rows = [(\<lambda>c. NaN)(Field_col := Txt ''Revenue'', CInt 2024 := Num (NpInt 200))]\<rparr>"

text \<open>A workbook with the same sheet as income statement and as balance sheet.\<close>

definition workbook :: "frame \<Rightarrow> frame dict" where
  "workbook f = [(''Income Statement'', f), (''Balance Sheet'', f)]"

text \<open>A file system with two workbooks.\<close>

definition two_files :: "frame \<Rightarrow> frame \<Rightarrow> string \<Rightarrow> frame dict option" where
  "two_files a b p =
     (if p = ''a.xlsx'' then Some (workbook a)
      else if p = ''b.xlsx'' then Some (workbook b)
      else None)"

text \<open>
  What is read off an outcome of \<open>consolidate_financials\<close>: the number of rows and the
  column labels of each statement, and the cell of a statement in the row labelled \<open>k\<close>
  and the column \<open>c\<close>, if the statement has both.
\<close>

definition row_counts :: "frame dict option \<Rightarrow> (string \<times> nat) list option" where
  "row_counts res = map_option (map (\<lambda>(name, f). (name, length (rows f)))) res"

definition column_lists :: "frame dict option \<Rightarrow> (string \<times> colname list) list option" where
  "column_lists res = map_option (map (\<lambda>(name, f). (name, columns f))) res"

definition consolidated_cell ::
    "frame dict option \<Rightarrow> string \<Rightarrow> string \<Rightarrow> colname \<Rightarrow> cell option" where
  "consolidated_cell res name k c =
     (case res of
        None \<Rightarrow> None
      | Some fin \<Rightarrow>
          (case map_of fin name of
             None \<Rightarrow> None
           | Some f \<Rightarrow>
               if c \<notin> set (columns f) then None
               else map_option (\<lambda>r. r c) (find (\<lambda>r. r Field_col = Txt k) (rows f))))"

section \<open>Basic facts\<close>

lemma bind_err_Inr [simp]: "bind_err (Inr x) f = f x"
  by (simp add: bind_err_def)

lemma bind_err_Inl [simp]: "bind_err (Inl e) f = Inl e"
  by (simp add: bind_err_def)

lemmas py_int_defs =
  py_int_def int_strip_def int_space_def digits_val_def digit_val_def isdigit_def
  max_str_digits_def


lemma py_str_int_2024: "py_str_int 2024 = ''2024''"
  by code_simp


lemma find_filter: "find P xs = (case filter P xs of [] \<Rightarrow> None | x # _ \<Rightarrow> Some x)"
  by (induction xs) auto


lemma get_value_ok:
  assumes "Field_col \<in> set (columns df)" "year \<in> set (columns df)"
  shows "get_value parse df name year = Inr (first_cell parse df name year)"
  using assms
  by (simp add: get_value_def first_cell_def find_filter Let_def split: list.splits)


lemma columns_filled [simp]: "columns (filled df) = columns df"
  by (simp add: filled_def)


section \<open>Properties of the scorer\<close>

text \<open>
  C2.  For a non-empty ratio set, \<open>score_ratios\<close> returns exactly the four sub-scores
  Profitability, Liquidity, Leverage and Efficiency, in this order, computed from the
  six ratios by the stated formulas (Profitability without any clamp), and the overall
  score is the arithmetic mean of the four.  A ratio that is absent from the set counts
  as 0, as \<^verbatim>\<open>ratios.get(key, 0)\<close> does.
\<close>

theorem score_ratios_formulas:
  assumes "ratios \<noteq> []"
    and "npm = dict_get ratios ''Net Profit Margin'' 0"
    and "gm = dict_get ratios ''Gross Margin'' 0"
    and "cr = dict_get ratios ''Current Ratio'' 0"
    and "qr = dict_get ratios ''Quick Ratio'' 0"
    and "de = dict_get ratios ''Debt to Equity Ratio'' 0"
    and "roa = dict_get ratios ''Return on Assets (ROA)'' 0"
    and "p = (npm * 100 + gm * 100) / 2"
    and "l = (min (cr / 2) 1 * 100 + min (qr / 1) 1 * 100) / 2"
    and "v = (1 - min (de / 3) 1) * 100"
    and "e = min (roa / (1 / 10)) 1 * 100"
  shows "score_ratios ratios =
           ([(''Profitability'', p), (''Liquidity'', l), (''Leverage'', v), (''Efficiency'', e)],
            (p + l + v + e) / 4)"
proof -
  have "sum_list (map snd [(''Profitability'', p), (''Liquidity'', l), (''Leverage'', v),
          (''Efficiency'', e)]) / real (length [(''Profitability'', p), (''Liquidity'', l),
          (''Leverage'', v), (''Efficiency'', e)]) = (p + l + v + e) / 4"
    by simp
  then show ?thesis
    using assms(1) unfolding assms(2-11) score_ratios_def Let_def by simp
qed

theorem score_ratios_formulas_witness:
  "[(''Net Profit Margin'', 1 / 10), (''Return on Assets (ROA)'', 1 / 20),
    (''Debt to Equity Ratio'', 3 / 2), (''Current Ratio'', 1), (''Gross Margin'', 3 / 10),
    (''Quick Ratio'', 1 / 2)] \<noteq> ([] :: real dict)
   \<and> score_ratios
       [(''Net Profit Margin'', 1 / 10), (''Return on Assets (ROA)'', 1 / 20),
        (''Debt to Equity Ratio'', 3 / 2), (''Current Ratio'', 1), (''Gross Margin'', 3 / 10),
        (''Quick Ratio'', 1 / 2)]
     = ([(''Profitability'', 20), (''Liquidity'', 50), (''Leverage'', 50), (''Efficiency'', 50)],
        85 / 2)"
  using score_ratios_formulas
    [of "[(''Net Profit Margin'', 1 / 10), (''Return on Assets (ROA)'', 1 / 20),
          (''Debt to Equity Ratio'', 3 / 2), (''Current Ratio'', 1), (''Gross Margin'', 3 / 10),
          (''Quick Ratio'', 1 / 2)]", OF _ refl refl refl refl refl refl refl refl refl refl]
  by (simp add: dict_get_def)

text \<open>
  C3.  The claim that every sub-score and the overall score lie in [0, 100] is what the
  docstring of \<open>score_ratios\<close> promises (``Scores ratios out of 100'').  The code does
  not keep it: for a loss-making company (net profit margin -50 percent, return on assets
  -10 percent) Profitability is -15 and Efficiency is -100.
\<close>

theorem score_ratios_loss_out_of_range:
  "score_ratios
     [(''Net Profit Margin'', - 1 / 2), (''Return on Assets (ROA)'', - 1 / 10),
      (''Debt to Equity Ratio'', 1), (''Current Ratio'', 1), (''Gross Margin'', 1 / 5),
      (''Quick Ratio'', 1)]
   = ([(''Profitability'', - 15), (''Liquidity'', 75), (''Leverage'', 200 / 3),
       (''Efficiency'', - 100)], 20 / 3)"
  by (simp add: score_ratios_def dict_get_def Let_def)

section \<open>Properties of the row lookup\<close>

text \<open>
  C7 as stated: with several rows matching the label, the row lookup returns 0.  The code
  does not: \<^verbatim>\<open>match.values[0]\<close> is the cell of the first matching row.  In
  \<open>dup_frame\<close> two rows are labelled Equity and the lookup returns 5, the cell of the
  first one.
\<close>

theorem get_value_multiple_matches_counterexample:
  "length (filter (\<lambda>r. r Field_col = Txt ''Equity'') (rows dup_frame)) = 2
   \<and> get_value (\<lambda>s. None) dup_frame ''Equity'' (CInt 2024) = Inr (Np (NpInt 5))"
  by (simp add: dup_frame_def get_value_def)

text \<open>
  C7, amended.  Given a table that has the column Field and the year column, the row
  lookup never raises.  It returns the cell of the first row whose Field equals the label
  exactly (the only such row when labels are unique, as in a consolidated statement):
  the number itself, or the number pandas parses from a text cell; it returns 0 when no
  row matches, when the cell is missing or nan, and when the cell is a text that is not a
  number.
\<close>

theorem get_value_first_match:
  assumes "Field_col \<in> set (columns df)" and "year \<in> set (columns df)"
  shows "get_value parse df field_name year =
     Inr (case find (\<lambda>r. r Field_col = Txt field_name) (rows df) of
            None \<Rightarrow> PyInt 0
          | Some r \<Rightarrow>
              (case r year of
                 Num x \<Rightarrow> if x = NpFloat FNaN then PyInt 0 else Np x
               | NaN \<Rightarrow> PyInt 0
               | Txt s \<Rightarrow>
                   (case parse s of
                      None \<Rightarrow> PyInt 0
                    | Some x \<Rightarrow> if x = NpFloat FNaN then PyInt 0 else Np x)))"
proof -
  have "to_numeric_or_zero parse c =
          (case c of
             Num x \<Rightarrow> if x = NpFloat FNaN then PyInt 0 else Np x
           | NaN \<Rightarrow> PyInt 0
           | Txt s \<Rightarrow>
               (case parse s of
                  None \<Rightarrow> PyInt 0
                | Some x \<Rightarrow> if x = NpFloat FNaN then PyInt 0 else Np x))"
    for c
    by (cases c) (simp_all split: option.splits)
  then show ?thesis
    using get_value_ok[OF assms, of parse field_name]
    by (simp add: first_cell_def split: option.splits)
qed

theorem get_value_first_match_witness:
  "Field_col \<in> set (columns dup_frame) \<and> CInt 2024 \<in> set (columns dup_frame)
   \<and> get_value (\<lambda>s. None) dup_frame ''Equity'' (CInt 2024) = Inr (Np (NpInt 5))
   \<and> get_value (\<lambda>s. None) dup_frame ''Inventories'' (CInt 2024) = Inr (PyInt 0)"
  using get_value_first_match[of dup_frame "CInt 2024" "\<lambda>s. None" "''Equity''"]
    get_value_first_match[of dup_frame "CInt 2024" "\<lambda>s. None" "''Inventories''"]
  by (simp add: dup_frame_def)

section \<open>Facts about the ratio engine\<close>

lemma overflow_threshold_pos: "0 < overflow_threshold"
  by (simp add: overflow_threshold_def)


lemma first_cell_kind: "zero_or_numpy (first_cell parse df name year)"
proof (cases "find (\<lambda>r. r Field_col = Txt name) (rows df)")
  case None
  then show ?thesis by (simp add: first_cell_def zero_or_numpy_def)
next
  case (Some r)
  then show ?thesis
    by (cases "r year") (auto simp: first_cell_def zero_or_numpy_def split: option.splits)
qed








section \<open>Properties of the ratio engine\<close>




section \<open>Properties of the year validation\<close>

text \<open>
  What \<^verbatim>\<open>int\<close> accepts around the digits: a no-break space is skipped, the separator
  U+001C is not, and \<^verbatim>\<open>str.strip\<close> removes both.
\<close>

lemma py_int_whitespace:
  "py_int (''2024'' @ [CHR 0xA0]) = Some 2024"
  "py_int (CHR 0x1C # ''2024'') = None"
  "py_int '' +2_024 '' = Some 2024"
  "py_int ''2024.0'' = None"
  "strip (CHR 0x1C # ''2024'' @ [CHR 0xA0]) = ''2024''"
  by (simp_all add: py_int_defs strip_def isspace_def)



section \<open>Properties of the trend analyzer\<close>

lemma py_int_FY:
  "py_int ''FY21'' = None" "py_int ''FY23'' = None"
  by (simp_all add: py_int_defs)

lemma sort_key_Nil_iff: "sort_key f xs = [] \<longleftrightarrow> xs = []"
proof -
  have "length (sort_key f xs) = length xs" by simp
  then show ?thesis by (metis length_0_conv)
qed

lemma sort_years_mset: "sort_years ys = Inr zs \<Longrightarrow> mset zs = mset ys"
  unfolding sort_years_def py_sorted_def
  by (simp split: if_splits) auto

text \<open>The guard of the margin keeps its division from raising as well.\<close>

lemma margin_ok:
  assumes "zero_or_numpy b"
  shows "\<exists>m. (if nonzero b
              then bind_err (np_truediv a b) (\<lambda>q. Inr (np_mul q (PyInt 100)))
              else Inr (PyInt 0)) = Inr m"
proof (cases b)
  case (PyInt n)
  with assms show ?thesis by (simp add: zero_or_numpy_def)
next
  case (Np x)
  then show ?thesis by (cases a) simp_all
qed

lemma trend_loop_ok:
  assumes "Field_col \<in> set (columns income)" and "set ys \<subseteq> set (columns income)"
  shows "\<exists>ts. trend_loop parse income ys = Inr ts \<and> map fst ts = ys"
  using assms(2)
proof (induction ys)
  case Nil
  then show ?case by simp
next
  case (Cons y ys)
  then obtain ts where ts: "trend_loop parse income ys = Inr ts" "map fst ts = ys"
    by auto
  have y: "y \<in> set (columns income)" using Cons.prems by simp
  obtain m where m:
    "(if nonzero (first_cell parse income ''Revenue from operations'' y)
      then bind_err (np_truediv (first_cell parse income ''Profit/(Loss) for the year'' y)
                       (first_cell parse income ''Revenue from operations'' y))
             (\<lambda>q. Inr (np_mul q (PyInt 100)))
      else Inr (PyInt 0)) = Inr m"
    using margin_ok[OF first_cell_kind] by blast
  show ?case
    by (simp only: trend_loop.simps get_value_ok[OF assms(1) y] bind_err_Inr m ts(1))
      (simp add: ts(2))
qed

text \<open>The columns of the trend table are the sorted years.\<close>

lemma analyze_trends_columns:
  assumes "map_of fin ''Income Statement'' = Some income"
    and "Field_col \<in> set (columns income)"
    and "sort_years (filter (\<lambda>col. col \<noteq> Field_col) (columns income)) = Inr zs"
    and "zs \<noteq> []"
  shows "\<exists>t. analyze_trends parse (Some fin) = Inr t \<and> tcolumns t = zs"
proof -
  let ?years = "filter (\<lambda>col. col \<noteq> Field_col) (columns income)"
  have m: "mset zs = mset ?years"
    by (rule sort_years_mset[OF assms(3)])
  then have sz: "set zs = set ?years"
    by (rule mset_eq_setD)
  then have sub: "set zs \<subseteq> set (columns income)" by auto
  from trend_loop_ok[OF assms(2) sub, of parse]
  obtain ts where ts: "trend_loop parse income zs = Inr ts" "map fst ts = zs" by blast
  have ne1: "?years \<noteq> []"
  proof
    assume "?years = []"
    with sz have "set zs = {}" by simp
    with assms(4) show False by simp
  qed
  have ne2: "ts \<noteq> []"
    using assms(4) ts(2) by auto
  have "analyze_trends parse (Some fin) =
          Inr \<lparr>tcolumns = map fst ts,
               trows = [(''Revenue (in currency)'', map (\<lambda>(y, r, p, m). r) ts),
                        (''Net Profit (in currency)'', map (\<lambda>(y, r, p, m). p) ts),
                        (''Net Margin (%)'', map (\<lambda>(y, r, p, m). m) ts)]\<rparr>"
    unfolding analyze_trends_def Let_def
    by (simp add: assms(1) ne1 assms(3) ts(1) ne2)
  then show ?thesis
    by (simp add: ts(2))
qed

text \<open>
  What the code does with the year labels.  When every label has an integer key, the
  columns are sorted by that key.  When some label has none and all labels are strings,
  they are sorted as strings.  When some label has none and the labels are of both kinds,
  \<^verbatim>\<open>sorted(years)\<close> raises \<^verbatim>\<open>TypeError\<close>, which \<open>analyze_trends\<close> does not catch.
\<close>

lemma analyze_trends_year_order:
  assumes "map_of fin ''Income Statement'' = Some income"
    and "Field_col \<in> set (columns income)"
    and "years = filter (\<lambda>col. col \<noteq> Field_col) (columns income)"
    and "years \<noteq> []"
  shows "((\<forall>y \<in> set years. year_key y \<noteq> None) \<longrightarrow>
           (\<exists>t. analyze_trends parse (Some fin) = Inr t
               \<and> tcolumns t = sort_key (\<lambda>y. the (year_key y)) years
               \<and> sorted (map (\<lambda>y. the (year_key y)) (tcolumns t))
               \<and> mset (tcolumns t) = mset years))
       \<and> ((\<exists>y \<in> set years. year_key y = None) \<and> (\<forall>y \<in> set years. is_CStr y) \<longrightarrow>
           (\<exists>t. analyze_trends parse (Some fin) = Inr t
               \<and> tcolumns t = sort_key str_of_col years
               \<and> sorted (map str_of_col (tcolumns t))
               \<and> mset (tcolumns t) = mset years))
       \<and> ((\<exists>y \<in> set years. year_key y = None)
            \<and> (\<exists>y \<in> set years. is_CStr y) \<and> (\<exists>y \<in> set years. \<not> is_CStr y) \<longrightarrow>
           analyze_trends parse (Some fin) = Inl TypeError)"
proof (intro conjI impI)
  assume a: "\<forall>y \<in> set years. year_key y \<noteq> None"
  then have s: "sort_years years = Inr (sort_key (\<lambda>y. the (year_key y)) years)"
    by (simp add: sort_years_def)
  have ne: "sort_key (\<lambda>y. the (year_key y)) years \<noteq> []"
    using assms(4) by (simp add: sort_key_Nil_iff)
  from analyze_trends_columns[OF assms(1,2) s[unfolded assms(3)] ne[unfolded assms(3)], of parse]
  obtain t where t: "analyze_trends parse (Some fin) = Inr t"
    "tcolumns t = sort_key (\<lambda>y. the (year_key y)) years"
    unfolding assms(3) by blast
  show "\<exists>t. analyze_trends parse (Some fin) = Inr t
               \<and> tcolumns t = sort_key (\<lambda>y. the (year_key y)) years
               \<and> sorted (map (\<lambda>y. the (year_key y)) (tcolumns t))
               \<and> mset (tcolumns t) = mset years"
    using t by simp
next
  assume a: "(\<exists>y \<in> set years. year_key y = None) \<and> (\<forall>y \<in> set years. is_CStr y)"
  then have s: "sort_years years = Inr (sort_key str_of_col years)"
    by (auto simp: sort_years_def py_sorted_def)
  have ne: "sort_key str_of_col years \<noteq> []"
    using assms(4) by (simp add: sort_key_Nil_iff)
  from analyze_trends_columns[OF assms(1,2) s[unfolded assms(3)] ne[unfolded assms(3)], of parse]
  obtain t where t: "analyze_trends parse (Some fin) = Inr t"
    "tcolumns t = sort_key str_of_col years"
    unfolding assms(3) by blast
  show "\<exists>t. analyze_trends parse (Some fin) = Inr t
               \<and> tcolumns t = sort_key str_of_col years
               \<and> sorted (map str_of_col (tcolumns t))
               \<and> mset (tcolumns t) = mset years"
    using t by simp
next
  assume a: "(\<exists>y \<in> set years. year_key y = None)
            \<and> (\<exists>y \<in> set years. is_CStr y) \<and> (\<exists>y \<in> set years. \<not> is_CStr y)"
  then have s: "sort_years years = Inl TypeError"
    by (auto simp: sort_years_def py_sorted_def)
  have ne: "filter (\<lambda>col. col \<noteq> Field_col) (columns income) \<noteq> []"
    using assms(3,4) by simp
  show "analyze_trends parse (Some fin) = Inl TypeError"
    using ne by (simp add: analyze_trends_def assms(1) s[unfolded assms(3)] Let_def)
qed

text \<open>The two orderings named by the specification.\<close>

lemma year_key_examples:
  "year_key (CInt 2021) = Some 2021" "year_key (CInt 2022) = Some 2022"
  "year_key (CInt 2023) = Some 2023"
  by code_simp+

lemma sort_years_examples:
  "sort_years [CInt 2023, CInt 2021, CInt 2022] = Inr [CInt 2021, CInt 2022, CInt 2023]"
  "sort_years [CStr ''FY23'', CStr ''FY21''] = Inr [CStr ''FY21'', CStr ''FY23'']"
  by (simp_all add: sort_years_def py_sorted_def py_int_FY year_key_examples
      less_eq_char_def less_char_def del: year_key.simps(1))

text \<open>
  C8.  The claim says that whenever some year label fails to parse as an integer the
  columns appear in ascending string order; the comment in the source says the same
  (``Fallback to string sort if they aren't numbers'').  The fallback is
  \<^verbatim>\<open>sorted(years)\<close>, which compares the labels themselves: for the header row
  2023, FY21 of \<open>mixed_income\<close> it compares a string with an integer and raises
  \<^verbatim>\<open>TypeError\<close>, so no trend table is produced.
\<close>

theorem analyze_trends_mixed_labels_raise:
  "analyze_trends (\<lambda>s. None) (Some [(''Income Statement'', mixed_income)]) = Inl TypeError"
  by (simp add: analyze_trends_def mixed_income_def sort_years_def py_sorted_def py_int_FY)

section \<open>Properties of the consolidator\<close>

lemma collect_sheets_named:
  "collect_sheets read paths (inc, bal) =
     (inc @ sheets_named read paths ''Income Statement'',
      bal @ sheets_named read paths ''Balance Sheet'')"
proof (induction paths arbitrary: inc bal)
  case Nil
  then show ?case by (simp add: sheets_named_def)
next
  case (Cons p paths)
  show ?case
  proof (cases "read p")
    case None
    then show ?thesis
      using Cons.IH[of inc bal] by (simp add: sheets_named_def)
  next
    case (Some sheets)
    then show ?thesis
      by (simp add: Cons.IH sheets_named_def split: option.splits)
  qed
qed

lemma sheets_named_Nil_iff:
  "sheets_named read paths name = [] \<longleftrightarrow>
     (\<forall>p \<in> set paths. \<forall>sheets. read p = Some sheets \<longrightarrow> map_of sheets name = None)"
proof -
  have "sheets_named read paths name = [] \<longleftrightarrow>
          (\<forall>p \<in> set paths. (case read p of None \<Rightarrow> []
             | Some sheets \<Rightarrow> (case map_of sheets name of None \<Rightarrow> [] | Some f \<Rightarrow> [f])) = [])"
    by (simp add: sheets_named_def)
  also have "\<dots> \<longleftrightarrow>
     (\<forall>p \<in> set paths. \<forall>sheets. read p = Some sheets \<longrightarrow> map_of sheets name = None)"
    by (intro ball_cong refl) (auto split: option.splits)
  finally show ?thesis .
qed

lemma first_occurrences_set [simp]: "set (first_occurrences xs) = set xs"
  by (simp add: first_occurrences_def)

lemma first_occurrences_distinct [simp]: "distinct (first_occurrences xs)"
  by (simp add: first_occurrences_def)

lemma columns_pd_concat: "set (columns (pd_concat frames)) = (\<Union>f \<in> set frames. set (columns f))"
  by (simp add: pd_concat_def)

lemma rows_pd_concat: "rows (pd_concat frames) = concat (map pad_rows frames)"
  by (simp add: pd_concat_def)

lemma pad_rows_Nil_iff [simp]: "pad_rows f = [] \<longleftrightarrow> rows f = []"
  by (simp add: pad_rows_def)

lemma pad_rows_Field:
  "r' \<in> set (pad_rows f) \<Longrightarrow>
   \<exists>r \<in> set (rows f). r' Field_col = (if Field_col \<in> set (columns f) then r Field_col else NaN)"
  by (auto simp: pad_rows_def)

text \<open>When the consolidation of one statement raises.\<close>

lemma consolidate_statement_raises:
  "(\<exists>e. consolidate_statement frames = Inl e) \<longleftrightarrow> statement_raises frames"
proof -
  let ?df = "pd_concat frames"
  have field: "Field_col \<in> set (columns ?df) \<longleftrightarrow> (\<exists>f \<in> set frames. Field_col \<in> set (columns f))"
    by (simp add: columns_pd_concat)
  have ne: "rows ?df \<noteq> [] \<longleftrightarrow> (\<exists>f \<in> set frames. rows f \<noteq> [])"
    by (simp add: rows_pd_concat)
  have num: "(\<forall>r \<in> set (rows ?df). is_Num (r Field_col)) \<longleftrightarrow>
             (\<forall>f \<in> set frames. \<forall>r \<in> set (rows f).
                Field_col \<in> set (columns f) \<and> is_Num (r Field_col))"
    by (auto simp: rows_pd_concat pad_rows_def)
  have "(\<exists>e. consolidate_statement frames = Inl e) \<longleftrightarrow>
          Field_col \<notin> set (columns ?df)
          \<or> (rows ?df \<noteq> [] \<and> (\<forall>r \<in> set (rows ?df). is_Num (r Field_col)))"
    by (simp add: consolidate_statement_def normalize_field_def)
  also have "\<dots> \<longleftrightarrow> statement_raises frames"
    unfolding field ne num statement_raises_def
    by blast
  finally show ?thesis .
qed

lemma consolidate_financials_Some:
  "consolidate_financials read paths = Some fin \<longleftrightarrow>
     sheets_named read paths ''Income Statement'' \<noteq> []
   \<and> sheets_named read paths ''Balance Sheet'' \<noteq> []
   \<and> (\<exists>fi fb. consolidate_statement (sheets_named read paths ''Income Statement'') = Inr fi
            \<and> consolidate_statement (sheets_named read paths ''Balance Sheet'') = Inr fb
            \<and> fin = [(''Income Statement'', fi), (''Balance Sheet'', fb)])"
  by (auto simp: consolidate_financials_def collect_sheets_named split: sum.splits)

text \<open>The consolidated statement in terms of the collected rows.\<close>

lemma strip_Nil [simp]: "strip [] = []"
  by (simp add: strip_def)

lemma normalized_label: "strip_cell (fillna_cell c) = Txt k \<longleftrightarrow> row_label c = Some k"
  by (cases c) auto

lemma label_of_normalized:
  "label_of_cell (strip_cell (fillna_cell c)) = (case row_label c of None \<Rightarrow> [] | Some k \<Rightarrow> [k])"
  by (cases c) auto

lemma normalize_field_Inr: "normalize_field df = Inr nf \<Longrightarrow> nf = normalized df"
  by (simp add: normalize_field_def normalized_def split: if_splits)

lemma group_keys_normalized: "group_keys (normalized df) = sort (remdups (labels_of df))"
  by (simp add: group_keys_def normalized_def labels_of_def comp_def label_of_normalized)

lemma numeric_column_normalized:
  "c \<noteq> Field_col \<Longrightarrow>
   numeric_column (normalized df) c \<longleftrightarrow> rows df \<noteq> [] \<and> (\<forall>r \<in> set (rows df). \<not> is_Txt (r c))"
  by (simp add: numeric_column_def normalized_def)

lemma numeric_normalized:
  "filter (\<lambda>c. c \<noteq> Field_col \<and> numeric_column (normalized df) c) (columns (normalized df))
     = summed_columns df"
proof -
  have "columns (normalized df) = columns df" by (simp add: normalized_def)
  then show ?thesis
    unfolding summed_columns_def
    by (auto intro!: filter_cong simp: numeric_column_normalized)
qed

lemma group_sum_normalized:
  assumes "c \<noteq> Field_col"
  shows "group_sum (normalized df) k c = group_total df k c"
proof -
  let ?g = "\<lambda>r. r(Field_col := strip_cell (fillna_cell (r Field_col)))"
  have sel: "filter (\<lambda>r. r Field_col = Txt k) (rows (normalized df)) = map ?g (group_rows df k)"
    by (simp add: normalized_def group_rows_def filter_map comp_def normalized_label)
  have cells: "map (\<lambda>r. r c) (map ?g rs) = map (\<lambda>r. r c) rs" for rs
    using assms by simp
  have ints: "int_column (normalized df) c \<longleftrightarrow> (\<forall>r \<in> set (rows df). is_int_cell (r c))"
    using assms by (simp add: int_column_def normalized_def)
  show ?thesis
    unfolding group_sum_def Let_def sel cells ints group_total_def
    by (simp add: comp_def)
qed

lemma groupby_normalized: "groupby_field_sum (normalized df) = grouped df"
proof -
  have "(\<lambda>k c. if c = Field_col then Txt k
               else if c \<in> set (summed_columns df) then Num (group_sum (normalized df) k c)
               else NaN)
      = (\<lambda>k c. if c = Field_col then Txt k
               else if c \<in> set (summed_columns df) then Num (group_total df k c)
               else NaN)"
    by (auto simp: fun_eq_iff group_sum_normalized)
  then show ?thesis
    unfolding groupby_field_sum_def Let_def numeric_normalized group_keys_normalized grouped_def
    by simp
qed

lemma consolidate_statement_Inr:
  "consolidate_statement frames = Inr out \<Longrightarrow> out = grouped (pd_concat frames)"
proof -
  assume a: "consolidate_statement frames = Inr out"
  then obtain nf where nf: "normalize_field (pd_concat frames) = Inr nf"
    by (cases "normalize_field (pd_concat frames)") (simp_all add: consolidate_statement_def)
  from a nf have "out = groupby_field_sum nf"
    by (simp add: consolidate_statement_def)
  then show ?thesis
    using normalize_field_Inr[OF nf] by (simp add: groupby_normalized)
qed

lemma consolidate_statement_cases:
  "consolidate_statement frames =
     (if statement_raises frames
      then (if \<forall>f \<in> set frames. Field_col \<notin> set (columns f) then Inl KeyError
            else Inl AttributeError)
      else Inr (grouped (pd_concat frames)))"
proof (cases "consolidate_statement frames")
  case (Inr out)
  then have "\<not> statement_raises frames"
    using consolidate_statement_raises[of frames] by simp
  then show ?thesis
    using Inr consolidate_statement_Inr[OF Inr] by simp
next
  case (Inl e)
  then have r: "statement_raises frames"
    using consolidate_statement_raises[of frames] by auto
  have "e = (if \<forall>f \<in> set frames. Field_col \<notin> set (columns f) then KeyError else AttributeError)"
    using Inl
    by (auto simp: consolidate_statement_def normalize_field_def columns_pd_concat
        split: if_splits)
  then show ?thesis
    using Inl r by simp
qed

lemma grouped_labels_distinct: "distinct (map (\<lambda>r. r Field_col) (rows (grouped df)))"
proof -
  have "map (\<lambda>r. r Field_col) (rows (grouped df)) = map Txt (sort (remdups (labels_of df)))"
    by (simp add: grouped_def comp_def)
  then show ?thesis
    by (simp add: distinct_map inj_on_def)
qed

lemma grouped_rows_Nil_iff: "rows (grouped df) = [] \<longleftrightarrow> labels_of df = []"
proof -
  have "rows (grouped df) = [] \<longleftrightarrow> set (sort (remdups (labels_of df))) = {}"
    by (simp only: grouped_def frame.simps map_is_Nil_conv set_empty)
  then show ?thesis by simp
qed

lemma labels_of_Nil_iff:
  "labels_of df = [] \<longleftrightarrow> (\<forall>r \<in> set (rows df). is_Num (r Field_col))"
proof -
  have "(case row_label c of None \<Rightarrow> [] | Some k \<Rightarrow> [k]) = [] \<longleftrightarrow> is_Num c" for c
    by (cases c) auto
  then show ?thesis
    by (simp add: labels_of_def)
qed

lemma consolidated_rows_Nil_iff:
  assumes "consolidate_statement frames = Inr out"
  shows "rows out = [] \<longleftrightarrow> (\<forall>f \<in> set frames. rows f = [])"
proof -
  have nr: "\<not> statement_raises frames"
    using assms consolidate_statement_raises[of frames] by simp
  have num: "(\<forall>r \<in> set (rows (pd_concat frames)). is_Num (r Field_col)) \<longleftrightarrow>
             (\<forall>f \<in> set frames. \<forall>r \<in> set (rows f).
                Field_col \<in> set (columns f) \<and> is_Num (r Field_col))"
    by (auto simp: rows_pd_concat pad_rows_def)
  have "rows out = [] \<longleftrightarrow> (\<forall>r \<in> set (rows (pd_concat frames)). is_Num (r Field_col))"
    by (simp add: consolidate_statement_Inr[OF assms] grouped_rows_Nil_iff labels_of_Nil_iff)
  also have "\<dots> \<longleftrightarrow> (\<forall>f \<in> set frames. rows f = [])"
    unfolding num using nr by (auto simp: statement_raises_def)
  finally show ?thesis .
qed

section \<open>Claims about the consolidator\<close>

text \<open>
  The claim C6 says that the consolidation fails exactly when a resulting statement has no
  rows.  For one workbook whose two sheets have a header row and no data row, both
  statements are returned, each with zero rows.
\<close>

theorem consolidate_financials_zero_rows_counterexample:
  "row_counts (consolidate_financials (two_files header_only header_only) [''a.xlsx''])
     = Some [(''Income Statement'', 0), (''Balance Sheet'', 0)]"
  by (simp add: row_counts_def consolidate_financials_def two_files_def workbook_def
      consolidate_statement_cases statement_raises_def header_only_def grouped_def
      labels_of_def pd_concat_def pad_rows_def)

text \<open>
  C6, as the code has it.  \<open>consolidate_financials\<close> fails exactly when no readable file
  has an income statement sheet, or none has a balance sheet, or the consolidation of one
  of the two statements raises.  The check of lines 55 to 62 counts the collected sheets,
  not their rows: when the function succeeds, a statement has zero rows exactly when all
  its collected sheets have none.
\<close>

theorem consolidate_financials_fails_iff:
  "(consolidate_financials read paths = None \<longleftrightarrow>
       (\<forall>p \<in> set paths. \<forall>sheets. read p = Some sheets
           \<longrightarrow> map_of sheets ''Income Statement'' = None)
     \<or> (\<forall>p \<in> set paths. \<forall>sheets. read p = Some sheets
           \<longrightarrow> map_of sheets ''Balance Sheet'' = None)
     \<or> statement_raises (sheets_named read paths ''Income Statement'')
     \<or> statement_raises (sheets_named read paths ''Balance Sheet''))
   \<and> (\<forall>fin. consolidate_financials read paths = Some fin \<longrightarrow>
        (\<exists>fi fb. fin = [(''Income Statement'', fi), (''Balance Sheet'', fb)]
           \<and> (rows fi = [] \<longleftrightarrow>
                (\<forall>f \<in> set (sheets_named read paths ''Income Statement''). rows f = []))
           \<and> (rows fb = [] \<longleftrightarrow>
                (\<forall>f \<in> set (sheets_named read paths ''Balance Sheet''). rows f = []))))"
proof (intro conjI allI impI)
  have "consolidate_financials read paths = None \<longleftrightarrow>
          sheets_named read paths ''Income Statement'' = []
        \<or> sheets_named read paths ''Balance Sheet'' = []
        \<or> (\<exists>e. consolidate_statement (sheets_named read paths ''Income Statement'') = Inl e)
        \<or> (\<exists>e. consolidate_statement (sheets_named read paths ''Balance Sheet'') = Inl e)"
    by (auto simp: consolidate_financials_def collect_sheets_named split: sum.splits)
  then show "consolidate_financials read paths = None \<longleftrightarrow>
       (\<forall>p \<in> set paths. \<forall>sheets. read p = Some sheets
           \<longrightarrow> map_of sheets ''Income Statement'' = None)
     \<or> (\<forall>p \<in> set paths. \<forall>sheets. read p = Some sheets
           \<longrightarrow> map_of sheets ''Balance Sheet'' = None)
     \<or> statement_raises (sheets_named read paths ''Income Statement'')
     \<or> statement_raises (sheets_named read paths ''Balance Sheet'')"
    by (simp only: consolidate_statement_raises sheets_named_Nil_iff)
next
  fix fin
  assume "consolidate_financials read paths = Some fin"
  then obtain fi fb where
    fi: "consolidate_statement (sheets_named read paths ''Income Statement'') = Inr fi" and
    fb: "consolidate_statement (sheets_named read paths ''Balance Sheet'') = Inr fb" and
    fin: "fin = [(''Income Statement'', fi), (''Balance Sheet'', fb)]"
    unfolding consolidate_financials_Some by blast
  show "\<exists>fi fb. fin = [(''Income Statement'', fi), (''Balance Sheet'', fb)]
           \<and> (rows fi = [] \<longleftrightarrow>
                (\<forall>f \<in> set (sheets_named read paths ''Income Statement''). rows f = []))
           \<and> (rows fb = [] \<longleftrightarrow>
                (\<forall>f \<in> set (sheets_named read paths ''Balance Sheet''). rows f = []))"
    using fin consolidated_rows_Nil_iff[OF fi] consolidated_rows_Nil_iff[OF fb] by blast
qed

theorem consolidate_financials_fails_iff_witness:
  "consolidate_financials (two_files plain_sheet plain_sheet) [''c.xlsx''] = None
   \<and> two_files plain_sheet plain_sheet ''c.xlsx'' = None
   \<and> consolidate_financials (two_files plain_sheet header_only) [''a.xlsx'', ''b.xlsx''] \<noteq> None
   \<and> sheets_named (two_files plain_sheet header_only) [''a.xlsx'', ''b.xlsx''] ''Income Statement''
       = [plain_sheet, header_only]
   \<and> \<not> statement_raises [plain_sheet, header_only]
   \<and> row_counts (consolidate_financials (two_files plain_sheet header_only)
                   [''a.xlsx'', ''b.xlsx''])
       = Some [(''Income Statement'', 1), (''Balance Sheet'', 1)]"
proof -
  have r: "two_files plain_sheet plain_sheet ''c.xlsx'' = None"
    by (simp add: two_files_def)
  have s: "sheets_named (two_files plain_sheet header_only) [''a.xlsx'', ''b.xlsx''] name
             = (if name = ''Income Statement'' \<or> name = ''Balance Sheet''
                then [plain_sheet, header_only] else [])" for name
    by (simp add: sheets_named_def two_files_def workbook_def)
  have nr: "\<not> statement_raises [plain_sheet, header_only]"
    by (simp add: statement_raises_def plain_sheet_def header_only_def)
  have a: "consolidate_financials (two_files plain_sheet plain_sheet) [''c.xlsx''] = None"
    using consolidate_financials_fails_iff[of "two_files plain_sheet plain_sheet" "[''c.xlsx'']"]
    by (simp add: r)
  have b: "consolidate_financials (two_files plain_sheet header_only) [''a.xlsx'', ''b.xlsx'']
             \<noteq> None"
    using consolidate_financials_fails_iff[of "two_files plain_sheet header_only"
        "[''a.xlsx'', ''b.xlsx'']"]
    by (simp add: s nr two_files_def workbook_def)
  have c: "row_counts (consolidate_financials (two_files plain_sheet header_only)
                   [''a.xlsx'', ''b.xlsx''])
       = Some [(''Income Statement'', 1), (''Balance Sheet'', 1)]"
    by (simp add: row_counts_def consolidate_financials_def two_files_def workbook_def
      consolidate_statement_cases nr[unfolded plain_sheet_def header_only_def] grouped_def
      labels_of_def pd_concat_def pad_rows_def plain_sheet_def header_only_def strip_def
      isspace_def)
  show ?thesis
    using r s[of "''Income Statement''"] nr a b c by simp
qed

end
